theory Spec2Isabelle
  imports Complex_Main
begin

section \<open>JavaScript values used by the example servers\<close>

text \<open>
  A JavaScript number is NaN, an infinity or a finite value.  A finite value is kept as
  the exact rational it denotes: rounding to binary64, and with it overflow to an
  infinity and underflow to zero, is not modelled, so the model agrees with the program
  on every value that binary64 represents exactly (all the integers that occur as ids,
  limits and status codes).  Signed zero is not distinguished: \<open>-0 === 0\<close> holds in
  JavaScript as well.
\<close>

datatype jsnum = NaN | PosInf | NegInf | Fin rat

text \<open>\<open>a === b\<close> on two numbers: NaN is equal to nothing, itself included.\<close>

fun strict_eq :: "jsnum \<Rightarrow> jsnum \<Rightarrow> bool" where
  "strict_eq NaN b = False"
| "strict_eq a NaN = False"
| "strict_eq a b = (a = b)"

definition isNaN :: "jsnum \<Rightarrow> bool" where
  "isNaN n = (n = NaN)"

text \<open>\<open>n > 0\<close>: false for NaN.\<close>

fun gt_zero :: "jsnum \<Rightarrow> bool" where
  "gt_zero NaN = False"
| "gt_zero PosInf = True"
| "gt_zero NegInf = False"
| "gt_zero (Fin q) = (0 < q)"

datatype jsval =
    JUndefined
  | JNull
  | JBool bool
  | JNum jsnum
  | JStr string
  | JArr "jsval list"
  | JObj "(string \<times> jsval) list"

text \<open>ToBoolean, the test of \<open>if (v)\<close> and \<open>!v\<close>.\<close>

fun truthy :: "jsval \<Rightarrow> bool" where
  "truthy JUndefined = False"
| "truthy JNull = False"
| "truthy (JBool b) = b"
| "truthy (JNum n) = (n \<noteq> NaN \<and> n \<noteq> Fin 0)"
| "truthy (JStr s) = (s \<noteq> [])"
| "truthy (JArr vs) = True"
| "truthy (JObj kvs) = True"

text \<open>\<open>v == null\<close>: true for \<open>undefined\<close> and \<open>null\<close> only.\<close>

fun loose_eq_null :: "jsval \<Rightarrow> bool" where
  "loose_eq_null JUndefined = True"
| "loose_eq_null JNull = True"
| "loose_eq_null v = False"

text \<open>
  The property \<open>o.name\<close> of a request body: the entry of an object (which lists each
  of its keys once), and \<open>undefined\<close> on an array, a string, a number or a boolean, none
  of which has a property of that name.  Reading it from \<open>undefined\<close> or \<open>null\<close> throws;
  the handlers test for that first.
\<close>

fun get_prop :: "jsval \<Rightarrow> string \<Rightarrow> jsval" where
  "get_prop (JObj kvs) k = (case map_of kvs k of None \<Rightarrow> JUndefined | Some v \<Rightarrow> v)"
| "get_prop v k = JUndefined"

subsection \<open>Strings\<close>

text \<open>
  A string is the UTF-8 encoding of the JavaScript string: the characters of Basic Latin
  are single bytes.  Whether a string is empty, and whether one string occurs in
  another, can be read off the bytes.
\<close>

fun starts_with :: "string \<Rightarrow> string \<Rightarrow> bool" where
  "starts_with s [] = True"
| "starts_with [] (c # cs) = False"
| "starts_with (d # ds) (c # cs) = (d = c \<and> starts_with ds cs)"

text \<open>\<open>hay.includes(needle)\<close>: \<open>needle\<close> occurs in \<open>hay\<close> as a substring.\<close>

fun str_includes :: "string \<Rightarrow> string \<Rightarrow> bool" where
  "str_includes [] needle = (needle = [])"
| "str_includes (c # cs) needle = (starts_with (c # cs) needle \<or> str_includes cs needle)"

fun join :: "string \<Rightarrow> string list \<Rightarrow> string" where
  "join sep [] = []"
| "join sep [x] = x"
| "join sep (x # y # ys) = x @ sep @ join sep (y # ys)"

subsection \<open>\<open>String.prototype.toLowerCase\<close>\<close>

text \<open>
  The built-in maps code points, so the bytes are decoded first.  A byte below 128 is a
  code point, a lead byte from 194 to 223 with its continuation byte is a code point
  from U+0080 to U+07FF, and every other byte (of a longer sequence, for a code point
  from U+0800) is carried through as it is, marked by an offset beyond the code points.
\<close>

definition carried :: "nat \<Rightarrow> nat" where
  "carried n = (if n < 128 then n else 1114112 + n)"

fun utf8_decode :: "string \<Rightarrow> nat list" where
  "utf8_decode [] = []"
| "utf8_decode [b] = [carried (of_char b)]"
| "utf8_decode (b # c # cs) =
     (if 194 \<le> (of_char b :: nat) \<and> (of_char b :: nat) \<le> 223 \<and>
         128 \<le> (of_char c :: nat) \<and> (of_char c :: nat) \<le> 191
      then ((of_char b - 192) * 64 + (of_char c - 128)) # utf8_decode cs
      else carried (of_char b) # utf8_decode (c # cs))"

fun utf8_encode :: "nat list \<Rightarrow> string" where
  "utf8_encode [] = []"
| "utf8_encode (c # cs) =
     (if c < 128 then [char_of c]
      else if c < 2048 then [char_of (192 + c div 64), char_of (128 + c mod 64)]
      else [char_of (c - 1114112)]) @ utf8_encode cs"

text \<open>
  The case mapping of the Unicode character database, for the letters of Basic Latin
  (\<open>A\<close> to \<open>Z\<close>, 65 to 90), of the Latin-1 Supplement (192 to 222 without the
  multiplication sign 215) and for the Greek capitals Alpha to Omega (913 to 937): the
  small letter is 32 above the capital.  Code points outside these blocks are left as
  they are.
\<close>

definition simple_lower :: "nat \<Rightarrow> nat" where
  "simple_lower c =
     (if (65 \<le> c \<and> c \<le> 90) \<or> (192 \<le> c \<and> c \<le> 222 \<and> c \<noteq> 215) \<or>
         (913 \<le> c \<and> c \<le> 937 \<and> c \<noteq> 930)
      then c + 32 else c)"

text \<open>
  The one mapping that depends on the context: a capital sigma (931) becomes the final
  sigma (962) when a cased letter comes before it, with nothing but case-ignorable
  characters in between, and no cased letter comes after it in the same way; otherwise
  it becomes the small sigma (963).  The cased letters and the case-ignorable characters
  are those of the same blocks (and the combining marks 768 to 879).
\<close>

definition cased :: "nat \<Rightarrow> bool" where
  "cased c =
     ((65 \<le> c \<and> c \<le> 90) \<or> (97 \<le> c \<and> c \<le> 122) \<or> c = 170 \<or> c = 181 \<or> c = 186 \<or>
      (192 \<le> c \<and> c \<le> 255 \<and> c \<noteq> 215 \<and> c \<noteq> 247) \<or>
      (913 \<le> c \<and> c \<le> 937 \<and> c \<noteq> 930) \<or> (945 \<le> c \<and> c \<le> 969))"

definition case_ignorable :: "nat \<Rightarrow> bool" where
  "case_ignorable c =
     (c \<in> set [39, 46, 58, 94, 96, 168, 173, 175, 180, 183, 184] \<or> (768 \<le> c \<and> c \<le> 879))"

fun reaches_cased :: "nat list \<Rightarrow> bool" where
  "reaches_cased [] = False"
| "reaches_cased (c # cs) = (cased c \<or> (case_ignorable c \<and> reaches_cased cs))"

text \<open>\<open>lower_points passed cs\<close>: \<open>passed\<close> holds the code points already passed, last first.\<close>

fun lower_points :: "nat list \<Rightarrow> nat list \<Rightarrow> nat list" where
  "lower_points passed [] = []"
| "lower_points passed (c # cs) =
     (if c = 931 then (if reaches_cased passed \<and> \<not> reaches_cased cs then 962 else 963)
      else simple_lower c) # lower_points (c # passed) cs"

definition toLowerCase :: "string \<Rightarrow> string" where
  "toLowerCase s = utf8_encode (lower_points [] (utf8_decode s))"

subsection \<open>\<open>Number(string)\<close>\<close>

definition is_ws :: "char \<Rightarrow> bool" where
  "is_ws c = ((of_char c :: nat) \<in> set [32, 9, 10, 11, 12, 13])"

definition trim :: "string \<Rightarrow> string" where
  "trim s = rev (dropWhile is_ws (rev (dropWhile is_ws s)))"

definition digit_of :: "nat \<Rightarrow> char \<Rightarrow> nat option" where
  "digit_of b c =
     (let n = (of_char c :: nat);
          v = (if 48 \<le> n \<and> n \<le> 57 then Some (n - 48)
               else if 97 \<le> n \<and> n \<le> 102 then Some (n - 87)
               else if 65 \<le> n \<and> n \<le> 70 then Some (n - 55)
               else None)
      in case v of None \<Rightarrow> None | Some d \<Rightarrow> if d < b then Some d else None)"

definition is_dec :: "char \<Rightarrow> bool" where
  "is_dec c = (digit_of 10 c \<noteq> None)"

fun digits_value :: "nat \<Rightarrow> string \<Rightarrow> nat \<Rightarrow> nat option" where
  "digits_value b [] acc = Some acc"
| "digits_value b (c # cs) acc =
     (case digit_of b c of None \<Rightarrow> None | Some d \<Rightarrow> digits_value b cs (acc * b + d))"

text \<open>A non-empty run of digits of base \<open>b\<close>, and nothing else.\<close>

definition digits :: "nat \<Rightarrow> string \<Rightarrow> nat option" where
  "digits b s = (if s = [] then None else digits_value b s 0)"

text \<open>The exponent part: absent, or \<open>e\<close>/\<open>E\<close>, an optional sign and digits.\<close>

definition exponent_part :: "string \<Rightarrow> (bool \<times> nat) option" where
  "exponent_part s =
     (case s of
        [] \<Rightarrow> Some (False, 0)
      | c # cs \<Rightarrow>
          if c = CHR ''e'' \<or> c = CHR ''E'' then
            (case cs of
               [] \<Rightarrow> None
             | d # ds \<Rightarrow>
                 if d = CHR ''-'' then map_option (Pair True) (digits 10 ds)
                 else if d = CHR ''+'' then map_option (Pair False) (digits 10 ds)
                 else map_option (Pair False) (digits 10 cs))
          else None)"

text \<open>The value of a run of decimal digits (0 for the empty run).\<close>

definition dec_value :: "string \<Rightarrow> nat" where
  "dec_value s = foldl (\<lambda>acc c. acc * 10 + ((of_char c :: nat) - 48)) 0 s"

definition scale :: "rat \<Rightarrow> bool \<times> nat \<Rightarrow> rat" where
  "scale q e = (if fst e then q / 10 ^ snd e else q * 10 ^ snd e)"

definition unsigned_decimal :: "string \<Rightarrow> jsnum" where
  "unsigned_decimal r =
     (let ip = takeWhile is_dec r;
          r1 = dropWhile is_dec r;
          fp = (case r1 of [] \<Rightarrow> [] | c # cs \<Rightarrow> if c = CHR ''.'' then takeWhile is_dec cs else []);
          r2 = (case r1 of [] \<Rightarrow> [] | c # cs \<Rightarrow> if c = CHR ''.'' then dropWhile is_dec cs else r1)
      in if ip = [] \<and> fp = [] then NaN
         else (case exponent_part r2 of
                 None \<Rightarrow> NaN
               | Some e \<Rightarrow>
                   Fin (scale (of_nat (dec_value ip) + of_nat (dec_value fp) / 10 ^ length fp) e)))"

fun negate :: "jsnum \<Rightarrow> jsnum" where
  "negate NaN = NaN"
| "negate PosInf = NegInf"
| "negate NegInf = PosInf"
| "negate (Fin q) = Fin (- q)"

definition signless :: "string \<Rightarrow> jsnum" where
  "signless r = (if r = ''Infinity'' then PosInf else unsigned_decimal r)"

definition decimal_literal :: "string \<Rightarrow> jsnum" where
  "decimal_literal s =
     (case s of
        [] \<Rightarrow> NaN
      | c # cs \<Rightarrow>
          if c = CHR ''-'' then negate (signless cs)
          else if c = CHR ''+'' then signless cs
          else signless s)"

definition radix_literal :: "nat \<Rightarrow> string \<Rightarrow> jsnum" where
  "radix_literal b ds = (case digits b ds of None \<Rightarrow> NaN | Some n \<Rightarrow> Fin (of_nat n))"

text \<open>
  StringToNumber: white space is trimmed, the empty string is 0, \<open>0x\<close>, \<open>0o\<close> and
  \<open>0b\<close> introduce unsigned hexadecimal, octal and binary integers, everything else is
  a signed decimal literal or \<open>Infinity\<close>, and whatever does not parse is NaN.
\<close>

definition js_Number :: "string \<Rightarrow> jsnum" where
  "js_Number s =
     (let t = trim s in
      if t = [] then Fin 0
      else if starts_with t ''0x'' \<or> starts_with t ''0X'' then radix_literal 16 (drop 2 t)
      else if starts_with t ''0o'' \<or> starts_with t ''0O'' then radix_literal 8 (drop 2 t)
      else if starts_with t ''0b'' \<or> starts_with t ''0B'' then radix_literal 2 (drop 2 t)
      else decimal_literal t)"

section \<open>Requests\<close>

text \<open>
  A value of \<open>req.query\<close>: a string, or an array of strings when the key is repeated
  in the URL.  A key that is absent reads as \<open>undefined\<close>, here \<open>None\<close>.
\<close>

datatype qval = QStr string | QArr "string list"

record request =
  req_method :: string
  req_url :: string
  req_params :: "string \<rightharpoonup> string"
  req_query :: "string \<rightharpoonup> qval"
  req_body :: jsval
  req_user :: jsval

text \<open>\<open>req.params.k\<close>: route parameters are always strings.\<close>

definition param :: "request \<Rightarrow> string \<Rightarrow> qval option" where
  "param req k = map_option QStr (req_params req k)"

fun truthy_q :: "qval option \<Rightarrow> bool" where
  "truthy_q None = False"
| "truthy_q (Some (QStr s)) = (s \<noteq> [])"
| "truthy_q (Some (QArr xs)) = True"

text \<open>ToString: an array is its elements joined by commas.\<close>

fun to_string :: "qval option \<Rightarrow> string" where
  "to_string None = ''undefined''"
| "to_string (Some (QStr s)) = s"
| "to_string (Some (QArr xs)) = join '','' xs"

text \<open>\<open>Number(v)\<close>: \<open>Number(undefined)\<close> is NaN, an array is converted through its string.\<close>

fun to_number :: "qval option \<Rightarrow> jsnum" where
  "to_number None = NaN"
| "to_number (Some v) = js_Number (to_string (Some v))"

fun to_jsval :: "qval option \<Rightarrow> jsval" where
  "to_jsval None = JUndefined"
| "to_jsval (Some (QStr s)) = JStr s"
| "to_jsval (Some (QArr xs)) = JArr (map JStr xs)"

section \<open>The data module\<close>

text \<open>
  \<open>data.js\<close> exports the arrays \<open>products\<close> and \<open>people\<close>; the handlers take them as
  parameters.  A product has the fields \<open>id\<close>, \<open>name\<close>, \<open>image\<close>, \<open>price\<close> and \<open>desc\<close>,
  a person \<open>id\<close> and \<open>name\<close>.
\<close>

record person =
  person_id :: jsnum
  person_name :: jsval

definition person_json :: "person \<Rightarrow> jsval" where
  "person_json p = JObj [(''id'', JNum (person_id p)), (''name'', person_name p)]"

record product =
  product_id :: jsnum
  product_name :: string
  product_image :: string
  product_price :: jsnum
  product_desc :: string

definition product_json :: "product \<Rightarrow> jsval" where
  "product_json p =
     JObj [(''id'', JNum (product_id p)), (''name'', JStr (product_name p)),
           (''image'', JStr (product_image p)), (''price'', JNum (product_price p)),
           (''desc'', JStr (product_desc p))]"

text \<open>\<open>arr.find(f)\<close> is the first element that satisfies \<open>f\<close>, or \<open>undefined\<close>.\<close>

definition find_product :: "(product \<Rightarrow> bool) \<Rightarrow> product list \<Rightarrow> jsval" where
  "find_product f ps = (case find f ps of None \<Rightarrow> JUndefined | Some p \<Rightarrow> product_json p)"

section \<open>Handlers as statement lists\<close>

text \<open>
  What a handler does to the outside: the calls on \<open>res\<close>, the call of \<open>next\<close>, the
  assignment to \<open>req.user\<close>, and an update of the shared \<open>people\<close> array.
  \<open>Respond n b\<close> is \<open>res.status(n).send(b)\<close>, \<open>res.status(n).json(b)\<close> or
  \<open>res.status(n).sendFile(b)\<close>, each of which completes the response; \<open>WriteHead\<close>,
  \<open>Write\<close> and \<open>End\<close> are the calls of the core \<open>http\<close> module, of which \<open>End\<close>
  completes the response.  \<open>Mutate ps\<close> stands for a statement that changes the
  \<open>people\<close> array in place (\<open>push\<close>, \<open>splice\<close>, an assignment to an element) and leaves
  it with the contents \<open>ps\<close>.  \<open>console.log\<close> is left out.

  An HTML body is kept as its text, without the markup; \<open>HtmlWith t v\<close> is a page with
  the text \<open>t\<close> and the value \<open>v\<close> interpolated by a template literal.
\<close>

datatype payload = Html string | HtmlWith string jsval | Json jsval | File string

datatype action =
    Respond nat payload
  | WriteHead nat string
  | Write payload
  | End
  | Next
  | SetUser jsval
  | Mutate "person list"

datatype js_error = TypeError

text \<open>
  The body of a handler is a list of statements.  The condition of an \<open>if\<close> is already a
  truth value: expressions have no effect in these programs.
\<close>

datatype stmt =
    Do action
  | Return
  | Throw js_error
  | If bool "stmt list"

datatype flow = Continue | Returned | Raised js_error

fun exec :: "stmt list \<Rightarrow> action list \<times> flow" where
  "exec [] = ([], Continue)"
| "exec (Do a # rest) = (case exec rest of (t, f) \<Rightarrow> (a # t, f))"
| "exec (Return # rest) = ([], Returned)"
| "exec (Throw e # rest) = ([], Raised e)"
| "exec (If c body # rest) =
     (if c then
        (case exec body of
           (t, Continue) \<Rightarrow> (case exec rest of (t', f) \<Rightarrow> (t @ t', f))
         | (t, f) \<Rightarrow> (t, f))
      else exec rest)"

type_synonym handler = "request \<Rightarrow> stmt list"

definition trace :: "handler \<Rightarrow> request \<Rightarrow> action list" where
  "trace h req = fst (exec (h req))"

definition thrown :: "handler \<Rightarrow> request \<Rightarrow> js_error option" where
  "thrown h req = (case snd (exec (h req)) of Raised e \<Rightarrow> Some e | _ \<Rightarrow> None)"

text \<open>The status codes of the completed responses of a trace, in order.\<close>

fun statuses :: "action list \<Rightarrow> nat list" where
  "statuses [] = []"
| "statuses (Respond n b # as) = n # statuses as"
| "statuses (a # as) = statuses as"

fun is_respond :: "action \<Rightarrow> bool" where
  "is_respond (Respond n b) = True"
| "is_respond a = False"

text \<open>The contents of the \<open>people\<close> array after the actions of a trace.\<close>

fun people_after :: "person list \<Rightarrow> action list \<Rightarrow> person list" where
  "people_after people [] = people"
| "people_after people (Mutate ps # as) = people_after ps as"
| "people_after people (a # as) = people_after people as"

section \<open>Route parameters: the basic and the explained products server\<close>

text \<open>\<open>app.get("/api/products/:productId", ...)\<close> of the basic server.\<close>

definition getProduct_basic :: "product list \<Rightarrow> handler" where
  "getProduct_basic products req =
     (let selectedProductId = param req ''productId'';
          selectedProductInfo =
            find_product (\<lambda>product. strict_eq (product_id product) (to_number selectedProductId))
              products
      in [If (loose_eq_null selectedProductInfo)
            [Do (Respond 404 (Html ''Product not found'')), Return],
          Do (Respond 200 (Json selectedProductInfo))])"

text \<open>The same route of the explained server, which validates the id first.\<close>

definition getProduct_explained :: "product list \<Rightarrow> handler" where
  "getProduct_explained products req =
     (let productIdString = param req ''productId'';
          productIdNumber = to_number productIdString;
          selectedProductInfo =
            find_product (\<lambda>product. strict_eq (product_id product) productIdNumber) products
      in [If (isNaN productIdNumber)
            [Do (Respond 400 (Json (JObj [(''error'', JStr ''Invalid product ID. Must be a number.''),
                                          (''received'', to_jsval productIdString)]))),
             Return],
          If (loose_eq_null selectedProductInfo)
            [Do (Respond 404 (Json (JObj [(''error'', JStr ''Product not found''),
                                          (''searchedId'', JNum productIdNumber)]))),
             Return],
          Do (Respond 200 (Json selectedProductInfo))])"

section \<open>Query parameters: the basic and the explained products server\<close>

text \<open>
  \<open>arr.slice(0, end)\<close>: \<open>end\<close> is truncated to an integer (NaN counts as 0), a negative
  \<open>end\<close> counts from the end of the array, and the result is clipped to the array.
\<close>

definition js_trunc :: "rat \<Rightarrow> int" where
  "js_trunc q = (if q < 0 then \<lceil>q\<rceil> else \<lfloor>q\<rfloor>)"

fun slice0 :: "'a list \<Rightarrow> jsnum \<Rightarrow> 'a list" where
  "slice0 xs NaN = []"
| "slice0 xs PosInf = xs"
| "slice0 xs NegInf = []"
| "slice0 xs (Fin q) =
     (let k = js_trunc q in
      if k < 0 then take (nat (int (length xs) + k)) xs else take (nat k) xs)"

text \<open>
  The value of \<open>searchableProducts\<close> after the search step of the basic server:
  \<open>name.includes(search)\<close> compares the characters as they are.
\<close>

definition searched_basic :: "product list \<Rightarrow> qval option \<Rightarrow> product list" where
  "searched_basic products search =
     (if truthy_q search
      then filter (\<lambda>product. str_includes (product_name product) (to_string search)) products
      else products)"

text \<open>\<open>app.get("/api/v1/query", ...)\<close> of the basic server.\<close>

definition query_basic :: "product list \<Rightarrow> handler" where
  "query_basic products req =
     (let search = req_query req ''search'';
          limit = req_query req ''limit'';
          searched = searched_basic products search;
          searchableProducts =
            (if truthy_q limit then slice0 searched (to_number limit) else searched)
      in [If (length searchableProducts < 1)
            [Do (Respond 200 (Json (JObj [(''searchSuccess'', JBool True), (''data'', JArr [])]))),
             Return],
          Do (Respond 200 (Json (JArr (map product_json searchableProducts))))])"

text \<open>
  The search step of the explained server lower-cases both the search term and the
  product name.  The built-in \<open>String.prototype.toLowerCase\<close> is the parameter \<open>lc\<close> of
  the handler.  It exists on strings only: on an array the call throws.
\<close>

fun is_array :: "qval option \<Rightarrow> bool" where
  "is_array (Some (QArr xs)) = True"
| "is_array v = False"

definition searched_explained ::
  "(string \<Rightarrow> string) \<Rightarrow> product list \<Rightarrow> qval option \<Rightarrow> product list" where
  "searched_explained lc products search =
     (if truthy_q search
      then (let searchTerm = lc (to_string search)
            in filter (\<lambda>product. str_includes (lc (product_name product)) searchTerm) products)
      else products)"

text \<open>\<open>app.get("/api/v1/query", ...)\<close> of the explained server.\<close>

definition query_explained :: "(string \<Rightarrow> string) \<Rightarrow> product list \<Rightarrow> handler" where
  "query_explained lc products req =
     (let search = req_query req ''search'';
          limit = req_query req ''limit'';
          searched = searched_explained lc products search;
          limitNumber = to_number limit;
          searchableProducts =
            (if truthy_q limit \<and> \<not> isNaN limitNumber \<and> gt_zero limitNumber
             then slice0 searched limitNumber else searched)
      in [If (truthy_q search) [If (is_array search) [Throw TypeError]],
          If (length searchableProducts < 1)
            [Do (Respond 200 (Json (JObj [(''success'', JBool True),
                                          (''message'', JStr ''No products matched your search criteria''),
                                          (''data'', JArr [])]))),
             Return],
          Do (Respond 200 (Json (JObj [(''success'', JBool True),
                                       (''count'', JNum (Fin (of_nat (length searchableProducts)))),
                                       (''data'', JArr (map product_json searchableProducts))])))])"





text \<open>The relation of \<open>ascii_case_pair\<close> on the decoded code points.\<close>

definition ascii_point_pair :: "nat \<Rightarrow> nat \<Rightarrow> bool" where
  "ascii_point_pair c d =
     (c = d \<or> (65 \<le> c \<and> c \<le> 90 \<and> d = c + 32) \<or> (65 \<le> d \<and> d \<le> 90 \<and> c = d + 32))"

section \<open>The people API and the login form\<close>

text \<open>
  \<open>const { name } = req.body\<close> throws a TypeError when \<open>req.body\<close> is \<open>undefined\<close> (no
  body was parsed) or \<open>null\<close>; \<open>req.body?.name\<close> is \<open>undefined\<close> there instead.
\<close>

definition body_name :: "request \<Rightarrow> jsval" where
  "body_name req = get_prop (req_body req) ''name''"

definition getPeople :: "person list \<Rightarrow> handler" where
  "getPeople people req =
     [Do (Respond 200 (Json (JObj [(''success'', JBool True),
                                   (''people'', JArr (map person_json people))])))]"

definition createPerson :: "person list \<Rightarrow> handler" where
  "createPerson people req =
     (let name = body_name req
      in [If (loose_eq_null (req_body req)) [Throw TypeError],
          If (truthy name)
            [Do (Respond 201 (Json (JObj [(''success'', JBool True), (''person'', name)]))),
             Return],
          Do (Respond 400 (Json (JObj [(''success'', JBool False),
                                       (''msg'', JStr ''Please provide user name'')])))])"

definition createPersonPostman :: "person list \<Rightarrow> handler" where
  "createPersonPostman people req =
     (let name = body_name req
      in [If (loose_eq_null (req_body req)) [Throw TypeError],
          If (truthy name)
            [Do (Respond 201
                   (Json (JObj [(''success'', JBool True),
                                (''data'',
                                 JArr (map person_json people @
                                       [JObj [(''name'', name),
                                              (''id'', JNum (Fin (of_nat (length people) + 1)))]]))]))),
             Return],
          Do (Respond 400 (Json (JObj [(''success'', JBool False),
                                       (''data'', JStr ''Please provide a valid name'')])))])"

text \<open>
  In \<open>updatePerson\<close> and \<open>deletePerson\<close> the result of \<open>people.find(f)\<close> is used as a truth
  value only: an element was found.
\<close>

definition updatePerson :: "person list \<Rightarrow> handler" where
  "updatePerson people req =
     (let personId = param req ''personId'';
          name = body_name req;
          doesPersonExist =
            list_ex (\<lambda>person. strict_eq (person_id person) (to_number personId)) people;
          updatedPeopleList =
            map (\<lambda>person. if strict_eq (person_id person) (to_number personId)
                           then person\<lparr>person_name := name\<rparr> else person) people
      in [If (\<not> truthy_q personId \<or> \<not> truthy name)
            [Do (Respond 400
                   (Json (JObj [(''success'', JBool False),
                                (''msg'', JStr ''Please provide the id of the resource to be updated && their new name'')]))),
             Return],
          If (\<not> doesPersonExist)
            [Do (Respond 404
                   (Json (JObj [(''success'', JBool False),
                                (''msg'', JStr (''No resource with the Id '' @ to_string personId @ '' found''))]))),
             Return],
          Do (Respond 200 (Json (JObj [(''success'', JBool True),
                                       (''data'', JArr (map person_json updatedPeopleList))])))])"

definition deletePerson :: "person list \<Rightarrow> handler" where
  "deletePerson people req =
     (let personId = param req ''personId'';
          doesPersonExist =
            list_ex (\<lambda>person. strict_eq (person_id person) (to_number personId)) people;
          updatedPeopleList =
            filter (\<lambda>person. \<not> strict_eq (person_id person) (to_number personId)) people
      in [If (\<not> truthy_q personId)
            [Do (Respond 400
                   (Json (JObj [(''success'', JBool False),
                                (''msg'', JStr ''Please provide the id of the resource to be deleted'')]))),
             Return],
          If (\<not> doesPersonExist)
            [Do (Respond 404
                   (Json (JObj [(''success'', JBool False),
                                (''msg'', JStr (''No resource with the Id '' @ to_string personId @ '' found''))]))),
             Return],
          Do (Respond 200 (Json (JObj [(''success'', JBool True),
                                       (''data'', JArr (map person_json updatedPeopleList))])))])"

text \<open>\<open>router.post("/", ...)\<close> of \<open>routes/auth.js\<close>, mounted at \<open>/login\<close>.\<close>

definition login :: handler where
  "login req =
     (let name = body_name req
      in [If (loose_eq_null (req_body req)) [Throw TypeError],
          If (truthy name) [Do (Respond 200 (HtmlWith ''Welcome dear'' name)), Return],
          Do (Respond 400 (Html ''Please provide valid user info''))])"

subsection \<open>The route \<open>/:personId\<close>\<close>

text \<open>
  \<open>router.route('/:personId')\<close> is matched against the path below the mount point
  \<open>/api/people\<close>: a slash, one segment of at least one character other than a slash,
  and at most one trailing slash.  The segment is percent-decoded and bound to
  \<open>personId\<close>; when the decoding fails the router answers by itself and the handler is
  not reached.  The decoding is byte-wise here (the check that the bytes are UTF-8 is
  left out).
\<close>

fun percent_decode :: "string \<Rightarrow> string option" where
  "percent_decode [] = Some []"
| "percent_decode (c # cs) =
     (if c = CHR ''%'' then
        (case cs of
           h # l # rest \<Rightarrow>
             (case (digit_of 16 h, digit_of 16 l) of
                (Some a, Some b) \<Rightarrow> map_option ((#) (char_of (a * 16 + b))) (percent_decode rest)
              | _ \<Rightarrow> None)
         | _ \<Rightarrow> None)
      else map_option ((#) c) (percent_decode cs))"

definition not_slash :: "char \<Rightarrow> bool" where
  "not_slash c = (c \<noteq> CHR ''/'')"

definition route_personId :: "string \<Rightarrow> string option" where
  "route_personId path =
     (case path of
        [] \<Rightarrow> None
      | c # rest \<Rightarrow>
          (let segment = takeWhile not_slash rest; after = dropWhile not_slash rest
           in if c = CHR ''/'' \<and> segment \<noteq> [] \<and> (after = [] \<or> after = ''/'')
              then percent_decode segment else None))"

section \<open>The middleware functions\<close>

text \<open>\<open>logger.js\<close> and \<open>logger-explained.js\<close>: log, then pass control on.\<close>

definition logger :: handler where
  "logger req = [Do Next]"

definition logger_explained :: handler where
  "logger_explained req = [Do Next]"

text \<open>\<open>authorize.js\<close>.\<close>

definition authorize :: handler where
  "authorize req =
     (let user = req_query req ''user''
      in [If (truthy_q user)
            [Do (SetUser (JObj [(''name'', to_jsval user), (''id'', JNum (Fin 3))])),
             Do Next,
             Return],
          Do (Respond 401 (Html ''You are not authorized to access this resource''))])"

text \<open>\<open>authorize-explained.js\<close>.\<close>

definition authorize_explained :: handler where
  "authorize_explained req =
     (let user = req_query req ''user''
      in [If (truthy_q user)
            [Do (SetUser (JObj [(''name'', to_jsval user), (''id'', JNum (Fin 3))])),
             Do Next,
             Return],
          Do (Respond 401 (Html ''Unauthorized Access'')),
          Return])"

section \<open>The remaining servers\<close>

subsection \<open>The servers on the core \<open>http\<close> module\<close>

text \<open>\<open>01-http-basics.js\<close>.\<close>

definition http_basics :: handler where
  "http_basics req =
     (let url = req_url req
      in [If (url = ''/'')
            [Do (WriteHead 200 ''text/html''),
             Do (Write (Html ''Welcome to our app home page !!'')),
             Do End,
             Return],
          If (url = ''/about'')
            [Do (WriteHead 200 ''text/html''),
             Do (Write (Html ''We are an awesome app, check us out !!'')),
             Do End,
             Return],
          Do (WriteHead 404 ''text/html''),
          Do (Write (Html ''Page not found ):'')),
          Do End])"

text \<open>\<open>02-http-app.js\<close>; the four files are read once, when the server starts.\<close>

definition http_app :: handler where
  "http_app req =
     (let url = req_url req
      in [If (url = ''/'')
            [Do (WriteHead 200 ''text/html''),
             Do (Write (File ''./navbar-app/index.html'')),
             Do End,
             Return],
          If (url = ''/styles.css'')
            [Do (WriteHead 200 ''text/css''),
             Do (Write (File ''./navbar-app/styles.css'')),
             Do End,
             Return],
          If (url = ''/logo.svg'')
            [Do (WriteHead 200 ''image/svg+xml''),
             Do (Write (File ''./navbar-app/logo.svg'')),
             Do End,
             Return],
          If (url = ''/browser-app.js'')
            [Do (WriteHead 200 ''text/javascript''),
             Do (Write (File ''./navbar-app/browser-app.js'')),
             Do End,
             Return],
          If (url = ''/about'')
            [Do (WriteHead 200 ''text/html''),
             Do (Write (Html ''We are an awesome app, check us out !!'')),
             Do End,
             Return],
          Do (WriteHead 404 ''text/html''),
          Do (Write (Html ''Page not found ):'')),
          Do End])"

subsection \<open>The first Express servers\<close>

text \<open>
  The Express server with the routes \<open>/\<close> and \<open>/about\<close>, and the catch-all route
  \<open>app.all("/{*any}", ...)\<close> that the servers up to the basic products server share.
\<close>

definition express_home :: handler where
  "express_home req = [Do (Respond 200 (Html ''Home Page''))]"

definition express_about :: handler where
  "express_about req = [Do (Respond 200 (Html ''About Page''))]"

definition resource_not_found :: handler where
  "resource_not_found req = [Do (Respond 404 (Html ''Resource not found''))]"

text \<open>\<open>04-express-app.js\<close>: the home page is sent as a file.\<close>

definition send_index :: handler where
  "send_index req = [Do (Respond 200 (File ''navbar-app/index.html''))]"

text \<open>\<open>06-basic-json.js\<close>: the home route sends the products.\<close>

definition json_home :: "product list \<Rightarrow> handler" where
  "json_home products req = [Do (Respond 200 (Json (JArr (map product_json products))))]"

subsection \<open>The other routes of the products servers\<close>

definition products_home :: handler where
  "products_home req = [Do (Respond 200 (Html ''Home page products''))]"

text \<open>\<open>/api/products\<close>: each product without its price and description.\<close>

definition basic_info :: "product \<Rightarrow> jsval" where
  "basic_info product =
     JObj [(''id'', JNum (product_id product)), (''name'', JStr (product_name product)),
           (''image'', JStr (product_image product))]"

definition products_list :: "product list \<Rightarrow> handler" where
  "products_list products req =
     (let basicProductInfoList = map basic_info products
      in [Do (Respond 200 (Json (JArr basicProductInfoList)))])"

text \<open>The route with three parameters, of the basic and of the explained server.\<close>

definition route_params_basic :: handler where
  "route_params_basic req =
     [Do (Respond 200 (Html ''Hello, we have processed all your Route Params''))]"

definition route_params_explained :: handler where
  "route_params_explained req =
     [Do (Respond 200
            (Json (JObj [(''message'', JStr ''Successfully processed all your route params''),
                         (''params'',
                          JObj [(''productId'', to_jsval (param req ''productId'')),
                                (''userPreferenceId'', to_jsval (param req ''userPreferenceId'')),
                                (''reviewId'', to_jsval (param req ''reviewId''))]),
                         (''note'', JStr ''In real app, these would be validated and used to fetch data'')])))]"

definition about_page :: handler where
  "about_page req = [Do (Respond 200 (Html ''About page''))]"

text \<open>The last middleware of the explained server, \<open>app.use((req, res) => ...)\<close>.\<close>

definition not_found_use :: handler where
  "not_found_use req = [Do (Respond 404 (Html ''Resource not found''))]"

subsection \<open>The routes of the middleware servers\<close>

definition mw_home :: handler where
  "mw_home req = [Do (Respond 200 (Html ''Home Page''))]"

definition mw_about :: handler where
  "mw_about req = [Do (Respond 200 (Html ''About Page''))]"

definition mw_products :: handler where
  "mw_products req = [Do (Respond 200 (Html ''Products Page''))]"

definition mw_customers :: handler where
  "mw_customers req = [Do (Respond 200 (Html ''Customers Page''))]"

text \<open>
  The error-handling middleware of the explained middleware server: the status is
  \<open>err.status || 500\<close>, the message \<open>err.message || 'Internal server error'\<close>.
\<close>

record js_err =
  err_status :: "nat option"
  err_message :: string

definition error_handler :: "js_err \<Rightarrow> handler" where
  "error_handler err req =
     [Do (Respond (case err_status err of None \<Rightarrow> 500 | Some n \<Rightarrow> if n = 0 then 500 else n)
            (Json (JObj [(''error'',
                          JStr (if err_message err = [] then ''Internal server error''
                                else err_message err))])))]"

definition mw_not_found :: handler where
  "mw_not_found req = [Do (Respond 404 (Html ''404 - Resource not found''))]"

section \<open>One response for each request\<close>

text \<open>
  A call that writes to the response, and a call that completes it.  A trace respects
  the rule when no call writes to a response that is already complete.
\<close>

fun writes_response :: "action \<Rightarrow> bool" where
  "writes_response (Respond n b) = True"
| "writes_response (WriteHead n t) = True"
| "writes_response (Write b) = True"
| "writes_response End = True"
| "writes_response a = False"

fun completes :: "action \<Rightarrow> bool" where
  "completes (Respond n b) = True"
| "completes End = True"
| "completes a = False"

fun single_response_from :: "bool \<Rightarrow> action list \<Rightarrow> bool" where
  "single_response_from sent [] = True"
| "single_response_from sent (a # as) =
     (\<not> (sent \<and> writes_response a) \<and> single_response_from (sent \<or> completes a) as)"

definition single_response :: "action list \<Rightarrow> bool" where
  "single_response t = single_response_from False t"

definition responds_once :: "action list \<Rightarrow> bool" where
  "responds_once t = (single_response t \<and> length (filter completes t) \<le> 1)"

text \<open>
  A stack of middleware: \<open>next()\<close> runs the rest of the stack at the point of the call,
  on the request as the middleware has changed it, and then the caller goes on.
\<close>

fun follow :: "(request \<Rightarrow> action list) \<Rightarrow> request \<Rightarrow> action list \<Rightarrow> action list" where
  "follow k req [] = []"
| "follow k req (Next # as) = k req @ follow k req as"
| "follow k req (SetUser u # as) = SetUser u # follow k (req\<lparr>req_user := u\<rparr>) as"
| "follow k req (a # as) = a # follow k req as"

primrec chain :: "handler list \<Rightarrow> request \<Rightarrow> action list" where
  "chain [] = (\<lambda>req. [])"
| "chain (h # hs) = (\<lambda>req. follow (chain hs) req (trace h req))"

text \<open>Every handler and middleware function of the repository.\<close>

definition all_handlers ::
  "(string \<Rightarrow> string) \<Rightarrow> product list \<Rightarrow> person list \<Rightarrow> js_err \<Rightarrow> handler list" where
  "all_handlers lc products people err =
     [http_basics, http_app,
      express_home, express_about, resource_not_found, send_index, json_home products,
      products_home, products_list products, getProduct_basic products, route_params_basic,
      query_basic products, about_page,
      getProduct_explained products, route_params_explained, query_explained lc products,
      not_found_use,
      logger, authorize, logger_explained, authorize_explained,
      mw_home, mw_about, mw_products, mw_customers, error_handler err, mw_not_found,
      getPeople people, createPerson people, createPersonPostman people, updatePerson people,
      deletePerson people, login]"

text \<open>The handlers behind \<open>app.use([logger, authorize])\<close> in the two middleware servers.\<close>

definition mw_routes :: "handler list" where
  "mw_routes = [mw_home, mw_about, mw_products, mw_customers]"

definition mw_routes_explained :: "handler list" where
  "mw_routes_explained = [mw_home, mw_about, mw_products, mw_customers, mw_not_found]"

section \<open>Example inputs\<close>

text \<open>
  Concrete inputs on which the theorems below are evaluated.  \<open>example_products\<close> is an
  example of a products array, not the contents of \<open>data.js\<close>.
\<close>

definition example_products :: "product list" where
  "example_products =
     [\<lparr>product_id = Fin 1, product_name = ''wooden chair'', product_image = ''chair.png'',
       product_price = Fin 10, product_desc = ''a chair''\<rparr>,
      \<lparr>product_id = Fin 2, product_name = ''Wooden Table'', product_image = ''table.png'',
       product_price = Fin 25, product_desc = ''a table''\<rparr>,
      \<lparr>product_id = Fin 3, product_name = ''leather sofa'', product_image = ''sofa.png'',
       product_price = Fin 99, product_desc = ''a sofa''\<rparr>]"

text \<open>The request \<open>GET /api/products/s\<close>.\<close>

definition product_request :: "string \<Rightarrow> request" where
  "product_request s =
     \<lparr>req_method = ''GET'', req_url = ''/api/products/'' @ s,
      req_params = [''productId'' \<mapsto> s], req_query = Map.empty,
      req_body = JUndefined, req_user = JUndefined\<rparr>"

text \<open>The request \<open>GET /api/v1/query\<close> with the given \<open>search\<close> and \<open>limit\<close>.\<close>

definition query_request :: "qval option \<Rightarrow> qval option \<Rightarrow> request" where
  "query_request search limit =
     \<lparr>req_method = ''GET'', req_url = ''/api/v1/query'',
      req_params = Map.empty,
      req_query = (Map.empty(''search'' := search))(''limit'' := limit),
      req_body = JUndefined, req_user = JUndefined\<rparr>"

text \<open>An example of a people array, and requests to the people API.\<close>

definition example_people :: "person list" where
  "example_people =
     [\<lparr>person_id = Fin 1, person_name = JStr ''john''\<rparr>,
      \<lparr>person_id = Fin 2, person_name = JStr ''peter''\<rparr>,
      \<lparr>person_id = Fin 3, person_name = JStr ''susan''\<rparr>]"

text \<open>A request with the parsed body \<open>b\<close> and the route parameters \<open>ps\<close>.\<close>

definition body_request :: "string \<Rightarrow> string \<Rightarrow> (string \<rightharpoonup> string) \<Rightarrow> jsval \<Rightarrow> request" where
  "body_request m u ps b =
     \<lparr>req_method = m, req_url = u, req_params = ps, req_query = Map.empty,
      req_body = b, req_user = JUndefined\<rparr>"

text \<open>The request \<open>GET u\<close> with the query parameter \<open>user\<close>.\<close>

definition user_request :: "string \<Rightarrow> qval option \<Rightarrow> request" where
  "user_request u user =
     \<lparr>req_method = ''GET'', req_url = u, req_params = Map.empty,
      req_query = Map.empty(''user'' := user), req_body = JUndefined, req_user = JUndefined\<rparr>"

text \<open>An error without a status and without a message.\<close>

definition example_err :: js_err where
  "example_err = \<lparr>err_status = None, err_message = []\<rparr>"





section \<open>Properties\<close>

subsection \<open>Auxiliary facts\<close>

lemmas number_eval = js_Number_def trim_def is_ws_def decimal_literal_def signless_def
  unsigned_decimal_def is_dec_def digit_of_def exponent_part_def dec_value_def scale_def
  radix_literal_def digits_def

lemma strict_eq_NaN [simp]: "strict_eq a NaN = False"
  by (cases a) simp_all

lemma find_product_undefined:
  "loose_eq_null (find_product f ps) \<longleftrightarrow> (\<forall>p \<in> set ps. \<not> f p)"
proof (cases "find f ps")
  case None
  then have "\<forall>x \<in> set ps. \<not> f x"
    by (auto simp: find_None_iff)
  with None show ?thesis
    by (simp add: find_product_def)
next
  case (Some p)
  then have "\<exists>x. x \<in> set ps \<and> f x"
    using find_None_iff [of f ps] by simp
  with Some show ?thesis
    by (auto simp: find_product_def product_json_def)
qed

lemma Number_abc: "to_number (param (product_request ''abc'') ''productId'') = NaN"
  by (simp add: param_def product_request_def number_eval)

lemma Number_9999: "to_number (param (product_request ''9999'') ''productId'') = Fin 9999"
  by (simp add: param_def product_request_def number_eval)

subsection \<open>Product lookup by route parameter\<close>

text \<open>
  C1, as stated, fails on the basic server: it has no validation step, so for
  \<open>GET /api/products/abc\<close> the id converts to NaN, no product matches, and the response
  is 404.
\<close>

theorem basic_invalid_product_id_is_404:
  "isNaN (to_number (param (product_request ''abc'') ''productId'')) \<and>
   statuses (trace (getProduct_basic example_products) (product_request ''abc'')) = [404] \<and>
   statuses (trace (getProduct_basic example_products) (product_request ''abc'')) \<noteq> [400]"
  by (simp add: Number_abc isNaN_def getProduct_basic_def trace_def find_product_undefined)

text \<open>
  C1 (amended): when the \<open>productId\<close> route parameter does not convert to a number, the
  explained server responds with status 400 and nothing else; the basic server, which
  does not validate the id, responds with status 404.
\<close>

theorem invalid_product_id_status:
  assumes "isNaN (to_number (param req ''productId''))"
  shows "statuses (trace (getProduct_explained products) req) = [400] \<and>
         statuses (trace (getProduct_basic products) req) = [404]"
  using assms
  by (simp add: isNaN_def getProduct_explained_def getProduct_basic_def trace_def
      find_product_undefined Let_def)

theorem invalid_product_id_status_witness:
  "isNaN (to_number (param (product_request ''abc'') ''productId'')) \<and>
   statuses (trace (getProduct_explained example_products) (product_request ''abc'')) = [400] \<and>
   statuses (trace (getProduct_basic example_products) (product_request ''abc'')) = [404]"
proof -
  have h: "isNaN (to_number (param (product_request ''abc'') ''productId''))"
    by (simp add: Number_abc isNaN_def)
  show ?thesis
    using h invalid_product_id_status [OF h, of example_products] by simp
qed

text \<open>
  C7: when the \<open>productId\<close> route parameter converts to a number that is the id of no
  product, both the basic and the explained server respond with status 404, and with
  nothing else.
\<close>

theorem unknown_product_id_is_404:
  assumes "\<not> isNaN (to_number (param req ''productId''))"
    and "\<forall>p \<in> set products. \<not> strict_eq (product_id p) (to_number (param req ''productId''))"
  shows "statuses (trace (getProduct_basic products) req) = [404] \<and>
         statuses (trace (getProduct_explained products) req) = [404]"
  using assms
  by (simp add: getProduct_explained_def getProduct_basic_def trace_def
      find_product_undefined Let_def)

theorem unknown_product_id_is_404_witness:
  "\<not> isNaN (to_number (param (product_request ''9999'') ''productId'')) \<and>
   list_all
     (\<lambda>p. \<not> strict_eq (product_id p) (to_number (param (product_request ''9999'') ''productId'')))
     example_products \<and>
   statuses (trace (getProduct_basic example_products) (product_request ''9999'')) = [404] \<and>
   statuses (trace (getProduct_explained example_products) (product_request ''9999'')) = [404]"
proof -
  have h1: "\<not> isNaN (to_number (param (product_request ''9999'') ''productId''))"
    by (simp add: Number_9999 isNaN_def)
  have h2: "\<forall>p \<in> set example_products.
      \<not> strict_eq (product_id p) (to_number (param (product_request ''9999'') ''productId''))"
    by (simp add: Number_9999 example_products_def)
  show ?thesis
    using h1 h2 unknown_product_id_is_404 [OF h1 h2] by (simp add: list_all_iff)
qed

subsection \<open>Query filtering\<close>

lemma Number_minus_5: "js_Number ''-5'' = Fin (- 5)"
  by (simp add: number_eval)

lemma Number_abc_string: "js_Number ''abc'' = NaN"
  by (simp add: number_eval)

lemma js_trunc_minus_5: "js_trunc (- 5) = - 5"
  by (simp add: js_trunc_def)



lemma ascii_point_pair_refl [simp]: "ascii_point_pair c c"
  by (simp add: ascii_point_pair_def)














text \<open>
  C2, as stated, fails on the basic server: it passes \<open>Number(limit)\<close> to \<open>slice\<close>
  without a check, so \<open>?limit=abc\<close> (NaN, which \<open>slice\<close> reads as 0) empties the list
  instead of leaving it as it is without a limit.
\<close>

theorem basic_limit_not_ignored:
  "trace (query_basic example_products) (query_request None (Some (QStr ''abc''))) =
     [Respond 200 (Json (JObj [(''searchSuccess'', JBool True), (''data'', JArr [])]))] \<and>
   trace (query_basic example_products) (query_request None None) =
     [Respond 200 (Json (JArr (map product_json example_products)))] \<and>
   trace (query_basic example_products) (query_request None (Some (QStr ''abc''))) \<noteq>
   trace (query_basic example_products) (query_request None None)"
  by (simp add: query_basic_def query_request_def trace_def searched_basic_def
      Number_abc_string example_products_def)

text \<open>
  C2 (amended): on the explained server, with \<open>search\<close> absent or a single string, the
  limits \<open>-5\<close> and \<open>abc\<close> are ignored: the handler does exactly what it does without a
  limit, and responds once, with status 200.  The basic server does not validate the
  limit: \<open>?limit=abc\<close> yields the empty result, and \<open>?limit=-5\<close> drops the last
  five of the products that match the search.
\<close>

theorem invalid_limit:
  assumes "req_query req ''limit'' = Some (QStr ''-5'') \<or> req_query req ''limit'' = Some (QStr ''abc'')"
    and "\<not> is_array (req_query req ''search'')"
  shows "trace (query_explained lc products) req =
           trace (query_explained lc products) (req\<lparr>req_query := (req_query req)(''limit'' := None)\<rparr>) \<and>
         statuses (trace (query_explained lc products) req) = [200] \<and>
         thrown (query_explained lc products) req = None \<and>
         (req_query req ''limit'' = Some (QStr ''abc'') \<longrightarrow>
            trace (query_basic products) req =
              [Respond 200 (Json (JObj [(''searchSuccess'', JBool True), (''data'', JArr [])]))]) \<and>
         (req_query req ''limit'' = Some (QStr ''-5'') \<longrightarrow>
            trace (query_basic products) req =
              (let searched = searched_basic products (req_query req ''search'') in
               if length searched \<le> 5
               then [Respond 200 (Json (JObj [(''searchSuccess'', JBool True), (''data'', JArr [])]))]
               else [Respond 200 (Json (JArr (map product_json (take (length searched - 5) searched))))]))"
proof -
  have limit: "(truthy_q (req_query req ''limit'') \<and> \<not> isNaN (to_number (req_query req ''limit''))
     \<and> gt_zero (to_number (req_query req ''limit''))) = False"
    using assms(1) by (auto simp: Number_minus_5 Number_abc_string isNaN_def)
  have e1: "trace (query_explained lc products) req =
           trace (query_explained lc products) (req\<lparr>req_query := (req_query req)(''limit'' := None)\<rparr>)"
    by (simp add: query_explained_def trace_def Let_def limit)
  have e2: "statuses (trace (query_explained lc products) req) = [200]"
    using assms(2) by (simp add: query_explained_def trace_def Let_def limit)
  have e3: "thrown (query_explained lc products) req = None"
    using assms(2) by (simp add: query_explained_def thrown_def Let_def limit)
  have b1: "req_query req ''limit'' = Some (QStr ''abc'') \<longrightarrow>
            trace (query_basic products) req =
              [Respond 200 (Json (JObj [(''searchSuccess'', JBool True), (''data'', JArr [])]))]"
    by (simp add: query_basic_def trace_def Let_def Number_abc_string)
  have b2: "req_query req ''limit'' = Some (QStr ''-5'') \<longrightarrow>
            trace (query_basic products) req =
              (let searched = searched_basic products (req_query req ''search'') in
               if length searched \<le> 5
               then [Respond 200 (Json (JObj [(''searchSuccess'', JBool True), (''data'', JArr [])]))]
               else [Respond 200 (Json (JArr (map product_json (take (length searched - 5) searched))))])"
    by (auto simp: query_basic_def trace_def Let_def Number_minus_5 js_trunc_minus_5 nat_diff_distrib')
  from e1 e2 e3 b1 b2 show ?thesis by blast
qed

theorem invalid_limit_witness:
  "req_query (query_request None (Some (QStr ''-5''))) ''limit'' = Some (QStr ''-5'') \<and>
   \<not> is_array (req_query (query_request None (Some (QStr ''-5''))) ''search'') \<and>
   trace (query_explained toLowerCase example_products) (query_request None (Some (QStr ''-5''))) =
     trace (query_explained toLowerCase example_products) (query_request None None) \<and>
   statuses (trace (query_explained toLowerCase example_products) (query_request None (Some (QStr ''-5'')))) = [200] \<and>
   trace (query_basic example_products) (query_request None (Some (QStr ''-5''))) =
     [Respond 200 (Json (JObj [(''searchSuccess'', JBool True), (''data'', JArr [])]))]"
proof -
  let ?req = "query_request None (Some (QStr ''-5''))"
  have h1: "req_query ?req ''limit'' = Some (QStr ''-5'') \<or> req_query ?req ''limit'' = Some (QStr ''abc'')"
    by (simp add: query_request_def)
  have h2: "\<not> is_array (req_query ?req ''search'')"
    by (simp add: query_request_def)
  have same: "?req\<lparr>req_query := (req_query ?req)(''limit'' := None)\<rparr> = query_request None None"
    by (simp add: query_request_def)
  have len: "length (searched_basic example_products (req_query ?req ''search'')) \<le> 5"
    by (simp add: query_request_def searched_basic_def example_products_def)
  have lim: "req_query ?req ''limit'' = Some (QStr ''-5'')"
    by (simp add: query_request_def)
  note inst = invalid_limit [OF h1 h2, where lc = toLowerCase and products = example_products]
  have basic: "trace (query_basic example_products) ?req =
     [Respond 200 (Json (JObj [(''searchSuccess'', JBool True), (''data'', JArr [])]))]"
    using inst len lim by (simp add: Let_def)
  have same_trace: "trace (query_explained toLowerCase example_products) ?req =
     trace (query_explained toLowerCase example_products) (query_request None None)"
    using inst same by metis
  have ok: "statuses (trace (query_explained toLowerCase example_products) ?req) = [200]"
    using inst by blast
  from lim h2 same_trace ok basic show ?thesis
    by blast
qed




subsection \<open>The people API, the login form and the authorization middleware\<close>

lemma truthy_name_body: "truthy (body_name req) \<Longrightarrow> \<not> loose_eq_null (req_body req)"
  by (cases "req_body req") (simp_all add: body_name_def)

lemma not_truthy_q_iff: "\<not> truthy_q u \<longleftrightarrow> u = None \<or> u = Some (QStr [])"
  by (cases u rule: truthy_q.cases) simp_all

lemma percent_decode_nonempty:
  assumes "percent_decode s = Some t" and "s \<noteq> []"
  shows "t \<noteq> []"
proof -
  from assms(2) obtain c cs where s: "s = c # cs"
    by (cases s) auto
  show ?thesis
    using assms(1) unfolding s
    by (auto split: if_splits list.splits option.splits)
qed

lemma route_personId_nonempty: "route_personId path = Some pid \<Longrightarrow> pid \<noteq> []"
  by (auto simp: route_personId_def Let_def split: list.splits if_splits
      dest: percent_decode_nonempty)

lemma Number_2: "js_Number ''2'' = Fin 2"
  by (simp add: number_eval)

text \<open>
  C5: \<open>updatePerson\<close>, \<open>deletePerson\<close> and \<open>createPersonPostman\<close> leave the shared
  \<open>people\<close> array as it was, and do nothing but respond: no store is touched.  What
  they send is a new array.  For a body with a truthy name \<open>createPersonPostman\<close> sends
  the old array with the new person appended (the spread); for a non-empty id of a
  person that exists, \<open>updatePerson\<close> (given a truthy name) sends the old array with the
  name replaced where the id matches (\<open>map\<close>), and \<open>deletePerson\<close> sends the old array
  without the persons whose id matches (\<open>filter\<close>).
\<close>

theorem people_unchanged:
  "people_after people (trace (updatePerson people) req) = people \<and>
   people_after people (trace (deletePerson people) req) = people \<and>
   people_after people (trace (createPersonPostman people) req) = people \<and>
   list_all is_respond (trace (updatePerson people) req) \<and>
   list_all is_respond (trace (deletePerson people) req) \<and>
   list_all is_respond (trace (createPersonPostman people) req) \<and>
   (truthy (body_name req) \<longrightarrow>
      trace (createPersonPostman people) req =
        [Respond 201
           (Json (JObj [(''success'', JBool True),
                        (''data'',
                         JArr (map person_json people @
                               [JObj [(''name'', body_name req),
                                      (''id'', JNum (Fin (of_nat (length people) + 1)))]]))]))]) \<and>
   (truthy_q (param req ''personId'') \<and> truthy (body_name req) \<and>
    list_ex (\<lambda>person. strict_eq (person_id person) (to_number (param req ''personId''))) people \<longrightarrow>
      trace (updatePerson people) req =
        [Respond 200
           (Json (JObj [(''success'', JBool True),
                        (''data'',
                         JArr (map person_json
                            (map (\<lambda>person.
                                    if strict_eq (person_id person) (to_number (param req ''personId''))
                                    then person\<lparr>person_name := body_name req\<rparr> else person)
                               people)))]))]) \<and>
   (truthy_q (param req ''personId'') \<and>
    list_ex (\<lambda>person. strict_eq (person_id person) (to_number (param req ''personId''))) people \<longrightarrow>
      trace (deletePerson people) req =
        [Respond 200
           (Json (JObj [(''success'', JBool True),
                        (''data'',
                         JArr (map person_json
                            (filter (\<lambda>person.
                                       \<not> strict_eq (person_id person) (to_number (param req ''personId'')))
                               people)))]))])"
proof -
  have frame: "people_after people (trace (updatePerson people) req) = people \<and>
     people_after people (trace (deletePerson people) req) = people \<and>
     people_after people (trace (createPersonPostman people) req) = people"
    by (simp add: updatePerson_def deletePerson_def createPersonPostman_def trace_def Let_def)
  have only: "list_all is_respond (trace (updatePerson people) req) \<and>
     list_all is_respond (trace (deletePerson people) req) \<and>
     list_all is_respond (trace (createPersonPostman people) req)"
    by (simp add: updatePerson_def deletePerson_def createPersonPostman_def trace_def Let_def)
  have spread: "truthy (body_name req) \<longrightarrow>
      trace (createPersonPostman people) req =
        [Respond 201
           (Json (JObj [(''success'', JBool True),
                        (''data'',
                         JArr (map person_json people @
                               [JObj [(''name'', body_name req),
                                      (''id'', JNum (Fin (of_nat (length people) + 1)))]]))]))]"
    using truthy_name_body [of req]
    by (simp add: createPersonPostman_def trace_def Let_def)
  have mapped: "truthy_q (param req ''personId'') \<and> truthy (body_name req) \<and>
    list_ex (\<lambda>person. strict_eq (person_id person) (to_number (param req ''personId''))) people \<longrightarrow>
      trace (updatePerson people) req =
        [Respond 200
           (Json (JObj [(''success'', JBool True),
                        (''data'',
                         JArr (map person_json
                            (map (\<lambda>person.
                                    if strict_eq (person_id person) (to_number (param req ''personId''))
                                    then person\<lparr>person_name := body_name req\<rparr> else person)
                               people)))]))]"
    by (simp add: updatePerson_def trace_def Let_def)
  have filtered: "truthy_q (param req ''personId'') \<and>
    list_ex (\<lambda>person. strict_eq (person_id person) (to_number (param req ''personId''))) people \<longrightarrow>
      trace (deletePerson people) req =
        [Respond 200
           (Json (JObj [(''success'', JBool True),
                        (''data'',
                         JArr (map person_json
                            (filter (\<lambda>person.
                                       \<not> strict_eq (person_id person) (to_number (param req ''personId'')))
                               people)))]))]"
    by (simp add: deletePerson_def trace_def Let_def)
  from frame only spread mapped filtered show ?thesis
    by blast
qed

theorem people_unchanged_witness:
  "trace (createPersonPostman example_people)
      (body_request ''POST'' ''/api/people/postman'' Map.empty (JObj [(''name'', JStr ''bob'')])) =
     [Respond 201
        (Json (JObj [(''success'', JBool True),
                     (''data'', JArr [JObj [(''id'', JNum (Fin 1)), (''name'', JStr ''john'')],
                                      JObj [(''id'', JNum (Fin 2)), (''name'', JStr ''peter'')],
                                      JObj [(''id'', JNum (Fin 3)), (''name'', JStr ''susan'')],
                                      JObj [(''name'', JStr ''bob''), (''id'', JNum (Fin 4))]])]))] \<and>
   trace (updatePerson example_people)
      (body_request ''PUT'' ''/api/people/2'' [''personId'' \<mapsto> ''2''] (JObj [(''name'', JStr ''bob'')])) =
     [Respond 200
        (Json (JObj [(''success'', JBool True),
                     (''data'', JArr [JObj [(''id'', JNum (Fin 1)), (''name'', JStr ''john'')],
                                      JObj [(''id'', JNum (Fin 2)), (''name'', JStr ''bob'')],
                                      JObj [(''id'', JNum (Fin 3)), (''name'', JStr ''susan'')]])]))] \<and>
   trace (deletePerson example_people)
      (body_request ''DELETE'' ''/api/people/2'' [''personId'' \<mapsto> ''2''] JUndefined) =
     [Respond 200
        (Json (JObj [(''success'', JBool True),
                     (''data'', JArr [JObj [(''id'', JNum (Fin 1)), (''name'', JStr ''john'')],
                                      JObj [(''id'', JNum (Fin 3)), (''name'', JStr ''susan'')]])]))] \<and>
   people_after example_people
     (trace (createPersonPostman example_people)
        (body_request ''POST'' ''/api/people/postman'' Map.empty (JObj [(''name'', JStr ''bob'')]))) =
     example_people \<and>
   people_after example_people
     (trace (updatePerson example_people)
        (body_request ''PUT'' ''/api/people/2'' [''personId'' \<mapsto> ''2''] (JObj [(''name'', JStr ''bob'')]))) =
     example_people \<and>
   people_after example_people
     (trace (deletePerson example_people)
        (body_request ''DELETE'' ''/api/people/2'' [''personId'' \<mapsto> ''2''] JUndefined)) =
     example_people"
proof -
  let ?post = "body_request ''POST'' ''/api/people/postman'' Map.empty (JObj [(''name'', JStr ''bob'')])"
  let ?put = "body_request ''PUT'' ''/api/people/2'' [''personId'' \<mapsto> ''2''] (JObj [(''name'', JStr ''bob'')])"
  let ?del = "body_request ''DELETE'' ''/api/people/2'' [''personId'' \<mapsto> ''2''] JUndefined"
  have name: "body_name ?post = JStr ''bob''" "body_name ?put = JStr ''bob''"
    by (simp_all add: body_request_def body_name_def)
  have id: "param ?put ''personId'' = Some (QStr ''2'')" "param ?del ''personId'' = Some (QStr ''2'')"
    by (simp_all add: param_def body_request_def)
  have n: "to_number (Some (QStr ''2'')) = Fin 2"
    by (simp add: Number_2)
  have ex: "list_ex (\<lambda>person. strict_eq (person_id person) (Fin 2)) example_people"
    by (simp add: example_people_def)
  have len: "Fin (of_nat (length example_people) + 1) = Fin 4"
    by (simp add: example_people_def)
  have old: "map person_json example_people =
     [JObj [(''id'', JNum (Fin 1)), (''name'', JStr ''john'')],
      JObj [(''id'', JNum (Fin 2)), (''name'', JStr ''peter'')],
      JObj [(''id'', JNum (Fin 3)), (''name'', JStr ''susan'')]]"
    by (simp add: example_people_def person_json_def)
  have upd: "map person_json
       (map (\<lambda>person. if strict_eq (person_id person) (Fin 2)
                       then person\<lparr>person_name := JStr ''bob''\<rparr> else person) example_people) =
     [JObj [(''id'', JNum (Fin 1)), (''name'', JStr ''john'')],
      JObj [(''id'', JNum (Fin 2)), (''name'', JStr ''bob'')],
      JObj [(''id'', JNum (Fin 3)), (''name'', JStr ''susan'')]]"
    by (simp add: example_people_def person_json_def)
  have del: "map person_json
       (filter (\<lambda>person. \<not> strict_eq (person_id person) (Fin 2)) example_people) =
     [JObj [(''id'', JNum (Fin 1)), (''name'', JStr ''john'')],
      JObj [(''id'', JNum (Fin 3)), (''name'', JStr ''susan'')]]"
    by (simp add: example_people_def person_json_def)
  note i_post = people_unchanged [of example_people ?post]
  note i_put = people_unchanged [of example_people ?put]
  note i_del = people_unchanged [of example_people ?del]
  have p_name: "truthy (body_name ?post)" "truthy (body_name ?put)"
    by (simp_all add: name)
  have p_id: "truthy_q (param ?put ''personId'')" "truthy_q (param ?del ''personId'')"
    by (simp_all add: id)
  have p_ex:
    "list_ex (\<lambda>person. strict_eq (person_id person) (to_number (param ?put ''personId''))) example_people"
    "list_ex (\<lambda>person. strict_eq (person_id person) (to_number (param ?del ''personId''))) example_people"
    unfolding id n by (rule ex)+
  from i_post p_name(1) have r1: "trace (createPersonPostman example_people) ?post =
        [Respond 201
           (Json (JObj [(''success'', JBool True),
                        (''data'',
                         JArr (map person_json example_people @
                               [JObj [(''name'', body_name ?post),
                                      (''id'', JNum (Fin (of_nat (length example_people) + 1)))]]))]))]"
    by blast
  have t1: "trace (createPersonPostman example_people) ?post =
     [Respond 201
        (Json (JObj [(''success'', JBool True),
                     (''data'', JArr [JObj [(''id'', JNum (Fin 1)), (''name'', JStr ''john'')],
                                      JObj [(''id'', JNum (Fin 2)), (''name'', JStr ''peter'')],
                                      JObj [(''id'', JNum (Fin 3)), (''name'', JStr ''susan'')],
                                      JObj [(''name'', JStr ''bob''), (''id'', JNum (Fin 4))]])]))]"
    unfolding r1 name len old by simp
  from i_put p_id(1) p_name(2) p_ex(1) have r2: "trace (updatePerson example_people) ?put =
        [Respond 200
           (Json (JObj [(''success'', JBool True),
                        (''data'',
                         JArr (map person_json
                            (map (\<lambda>person.
                                    if strict_eq (person_id person) (to_number (param ?put ''personId''))
                                    then person\<lparr>person_name := body_name ?put\<rparr> else person)
                               example_people)))]))]"
    by blast
  have t2: "trace (updatePerson example_people) ?put =
     [Respond 200
        (Json (JObj [(''success'', JBool True),
                     (''data'', JArr [JObj [(''id'', JNum (Fin 1)), (''name'', JStr ''john'')],
                                      JObj [(''id'', JNum (Fin 2)), (''name'', JStr ''bob'')],
                                      JObj [(''id'', JNum (Fin 3)), (''name'', JStr ''susan'')]])]))]"
    unfolding r2 id n name upd by (rule refl)
  from i_del p_id(2) p_ex(2) have r3: "trace (deletePerson example_people) ?del =
        [Respond 200
           (Json (JObj [(''success'', JBool True),
                        (''data'',
                         JArr (map person_json
                            (filter (\<lambda>person.
                                       \<not> strict_eq (person_id person) (to_number (param ?del ''personId'')))
                               example_people)))]))]"
    by blast
  have t3: "trace (deletePerson example_people) ?del =
     [Respond 200
        (Json (JObj [(''success'', JBool True),
                     (''data'', JArr [JObj [(''id'', JNum (Fin 1)), (''name'', JStr ''john'')],
                                      JObj [(''id'', JNum (Fin 3)), (''name'', JStr ''susan'')]])]))]"
    unfolding r3 id n del by (rule refl)
  have f1: "people_after example_people (trace (createPersonPostman example_people) ?post) = example_people"
    using i_post by blast
  have f2: "people_after example_people (trace (updatePerson example_people) ?put) = example_people"
    using i_put by blast
  have f3: "people_after example_people (trace (deletePerson example_people) ?del) = example_people"
    using i_del by blast
  from t1 t2 t3 f1 f2 f3 show ?thesis
    by blast
qed

text \<open>
  C6: both versions of \<open>authorize\<close> respond with 401, and do not call \<open>next\<close>, exactly
  when the query parameter \<open>user\<close> is absent or the empty string; otherwise \<open>user\<close> is
  truthy, and they set \<open>req.user\<close>, call \<open>next\<close> and send nothing.
\<close>

theorem authorize_401_iff:
  "(\<not> truthy_q (req_query req ''user'') \<longleftrightarrow>
      req_query req ''user'' = None \<or> req_query req ''user'' = Some (QStr [])) \<and>
   (\<not> truthy_q (req_query req ''user'') \<longrightarrow>
      trace authorize req =
        [Respond 401 (Html ''You are not authorized to access this resource'')] \<and>
      trace authorize_explained req = [Respond 401 (Html ''Unauthorized Access'')]) \<and>
   (truthy_q (req_query req ''user'') \<longrightarrow>
      trace authorize req =
        [SetUser (JObj [(''name'', to_jsval (req_query req ''user'')), (''id'', JNum (Fin 3))]), Next] \<and>
      trace authorize_explained req =
        [SetUser (JObj [(''name'', to_jsval (req_query req ''user'')), (''id'', JNum (Fin 3))]), Next])"
  by (simp add: not_truthy_q_iff [symmetric] authorize_def authorize_explained_def trace_def Let_def)

theorem authorize_401_iff_witness:
  "trace authorize (user_request ''/'' None) =
     [Respond 401 (Html ''You are not authorized to access this resource'')] \<and>
   trace authorize_explained (user_request ''/'' (Some (QStr []))) =
     [Respond 401 (Html ''Unauthorized Access'')] \<and>
   trace authorize (user_request ''/'' (Some (QStr ''john''))) =
     [SetUser (JObj [(''name'', JStr ''john''), (''id'', JNum (Fin 3))]), Next]"
proof -
  have a: "\<not> truthy_q (req_query (user_request ''/'' None) ''user'')"
    by (simp add: user_request_def)
  have b: "\<not> truthy_q (req_query (user_request ''/'' (Some (QStr []))) ''user'')"
    by (simp add: user_request_def)
  have c: "truthy_q (req_query (user_request ''/'' (Some (QStr ''john''))) ''user'')"
    by (simp add: user_request_def)
  have d: "to_jsval (req_query (user_request ''/'' (Some (QStr ''john''))) ''user'') = JStr ''john''"
    by (simp add: user_request_def)
  show ?thesis
    using a b c d
      authorize_401_iff [of "user_request ''/'' None"]
      authorize_401_iff [of "user_request ''/'' (Some (QStr []))"]
      authorize_401_iff [of "user_request ''/'' (Some (QStr ''john''))"]
    by simp
qed

text \<open>
  With a parsed body whose \<open>name\<close> is missing or falsy, \<open>createPerson\<close>,
  \<open>createPersonPostman\<close> and the login handler respond with status 400, and with
  nothing else.
\<close>

lemma parsed_body_without_name_is_400:
  assumes "\<not> loose_eq_null (req_body req)" and "\<not> truthy (body_name req)"
  shows "statuses (trace (createPerson people) req) = [400] \<and>
         statuses (trace (createPersonPostman people) req) = [400] \<and>
         statuses (trace login req) = [400]"
  using assms
  by (simp add: createPerson_def createPersonPostman_def login_def trace_def Let_def)

text \<open>
  C8 does not hold of the code for a POST request without a body: nothing is parsed,
  \<open>req.body\<close> is \<open>undefined\<close> and has no truthy \<open>name\<close>, and \<open>const { name } = req.body\<close>
  throws in \<open>createPerson\<close>, \<open>createPersonPostman\<close> and the login handler before any
  response is sent, so none of them responds with status 400.  \<open>updatePerson\<close> reads
  \<open>req.body?.name\<close> and does respond with status 400 to such a request (the lemma after
  the theorem).
\<close>

theorem undefined_body_throws:
  "\<not> truthy (body_name (body_request ''POST'' ''/api/people'' Map.empty JUndefined)) \<and>
   trace (createPerson example_people)
     (body_request ''POST'' ''/api/people'' Map.empty JUndefined) = [] \<and>
   thrown (createPerson example_people)
     (body_request ''POST'' ''/api/people'' Map.empty JUndefined) = Some TypeError \<and>
   trace (createPersonPostman example_people)
     (body_request ''POST'' ''/api/people/postman'' Map.empty JUndefined) = [] \<and>
   thrown (createPersonPostman example_people)
     (body_request ''POST'' ''/api/people/postman'' Map.empty JUndefined) = Some TypeError \<and>
   trace login (body_request ''POST'' ''/login'' Map.empty JUndefined) = [] \<and>
   thrown login (body_request ''POST'' ''/login'' Map.empty JUndefined) = Some TypeError"
  by (simp add: createPerson_def createPersonPostman_def login_def
      body_request_def body_name_def trace_def thrown_def)

lemma updatePerson_undefined_body_is_400:
  "statuses (trace (updatePerson example_people)
     (body_request ''PUT'' ''/api/people/2'' [''personId'' \<mapsto> ''2''] JUndefined)) = [400]"
  by (simp add: updatePerson_def body_request_def body_name_def trace_def param_def)

text \<open>
  C9: for a body with a truthy \<open>name\<close>, \<open>createPerson\<close> responds with 201 and
  \<open>{success: true, person: name}\<close>, and the people array is what it was: \<open>getPeople\<close>
  after the request answers as it did before.
\<close>

theorem createPerson_does_not_add:
  assumes "truthy (body_name req)"
  shows "trace (createPerson people) req =
           [Respond 201 (Json (JObj [(''success'', JBool True), (''person'', body_name req)]))] \<and>
         people_after people (trace (createPerson people) req) = people \<and>
         trace (getPeople (people_after people (trace (createPerson people) req))) req' =
           trace (getPeople people) req'"
  using assms truthy_name_body [OF assms]
  by (simp add: createPerson_def trace_def Let_def)

theorem createPerson_does_not_add_witness:
  "truthy (body_name (body_request ''POST'' ''/api/people'' Map.empty (JObj [(''name'', JStr ''bob'')]))) \<and>
   trace (createPerson example_people)
     (body_request ''POST'' ''/api/people'' Map.empty (JObj [(''name'', JStr ''bob'')])) =
     [Respond 201 (Json (JObj [(''success'', JBool True), (''person'', JStr ''bob'')]))] \<and>
   trace (getPeople (people_after example_people
       (trace (createPerson example_people)
          (body_request ''POST'' ''/api/people'' Map.empty (JObj [(''name'', JStr ''bob'')])))))
     (body_request ''GET'' ''/api/people'' Map.empty JUndefined) =
   trace (getPeople example_people) (body_request ''GET'' ''/api/people'' Map.empty JUndefined)"
proof -
  let ?req = "body_request ''POST'' ''/api/people'' Map.empty (JObj [(''name'', JStr ''bob'')])"
  have h: "truthy (body_name ?req)"
    by (simp add: body_request_def body_name_def)
  have n: "body_name ?req = JStr ''bob''"
    by (simp add: body_request_def body_name_def)
  show ?thesis
    using h n createPerson_does_not_add [OF h, of example_people
        "body_request ''GET'' ''/api/people'' Map.empty JUndefined"]
    by simp
qed

text \<open>
  C10: a request that reaches \<open>deletePerson\<close> through the route \<open>/:personId\<close> has a
  non-empty \<open>personId\<close>, so the response is 200 when a person has that id and 404
  otherwise, and never 400.
\<close>

theorem deletePerson_never_400:
  assumes "route_personId path = Some pid" and "req_params req ''personId'' = Some pid"
  shows "pid \<noteq> [] \<and>
         statuses (trace (deletePerson people) req) =
           [if list_ex (\<lambda>person. strict_eq (person_id person) (js_Number pid)) people
            then 200 else 404] \<and>
         statuses (trace (deletePerson people) req) \<noteq> [400]"
  using route_personId_nonempty [OF assms(1)] assms(2)
  by (simp add: deletePerson_def trace_def Let_def param_def)

theorem deletePerson_never_400_witness:
  "route_personId ''/7'' = Some ''7'' \<and>
   statuses (trace (deletePerson example_people)
      (body_request ''DELETE'' ''/api/people/7'' [''personId'' \<mapsto> ''7''] JUndefined)) = [404] \<and>
   route_personId ''/2'' = Some ''2'' \<and>
   statuses (trace (deletePerson example_people)
      (body_request ''DELETE'' ''/api/people/2'' [''personId'' \<mapsto> ''2''] JUndefined)) = [200]"
proof -
  have r7: "route_personId ''/7'' = Some ''7''"
    by (simp add: route_personId_def not_slash_def)
  have p7: "req_params (body_request ''DELETE'' ''/api/people/7'' [''personId'' \<mapsto> ''7''] JUndefined)
      ''personId'' = Some ''7''"
    by (simp add: body_request_def)
  have r2: "route_personId ''/2'' = Some ''2''"
    by (simp add: route_personId_def not_slash_def)
  have p2: "req_params (body_request ''DELETE'' ''/api/people/2'' [''personId'' \<mapsto> ''2''] JUndefined)
      ''personId'' = Some ''2''"
    by (simp add: body_request_def)
  have n7: "js_Number ''7'' = Fin 7"
    by (simp add: number_eval)
  show ?thesis
    using r7 r2
      deletePerson_never_400 [OF r7 p7, of example_people]
      deletePerson_never_400 [OF r2 p2, of example_people]
    by (simp add: n7 Number_2 example_people_def)
qed

subsection \<open>One response for each request\<close>

lemmas once_simps = trace_def responds_once_def single_response_def Let_def

lemma once_http_basics: "responds_once (trace http_basics req)"
  by (simp add: http_basics_def once_simps)

lemma once_http_app: "responds_once (trace http_app req)"
  by (simp add: http_app_def once_simps)

lemma once_express_home: "responds_once (trace express_home req)"
  by (simp add: express_home_def once_simps)

lemma once_express_about: "responds_once (trace express_about req)"
  by (simp add: express_about_def once_simps)

lemma once_resource_not_found: "responds_once (trace resource_not_found req)"
  by (simp add: resource_not_found_def once_simps)

lemma once_send_index: "responds_once (trace send_index req)"
  by (simp add: send_index_def once_simps)

lemma once_json_home: "responds_once (trace (json_home products) req)"
  by (simp add: json_home_def once_simps)

lemma once_products_home: "responds_once (trace products_home req)"
  by (simp add: products_home_def once_simps)

lemma once_products_list: "responds_once (trace (products_list products) req)"
  by (simp add: products_list_def once_simps)

lemma once_getProduct_basic: "responds_once (trace (getProduct_basic products) req)"
  by (simp add: getProduct_basic_def once_simps)

lemma once_route_params_basic: "responds_once (trace route_params_basic req)"
  by (simp add: route_params_basic_def once_simps)

lemma once_query_basic: "responds_once (trace (query_basic products) req)"
  by (simp add: query_basic_def once_simps)

lemma once_about_page: "responds_once (trace about_page req)"
  by (simp add: about_page_def once_simps)

lemma once_getProduct_explained: "responds_once (trace (getProduct_explained products) req)"
  by (simp add: getProduct_explained_def once_simps)

lemma once_route_params_explained: "responds_once (trace route_params_explained req)"
  by (simp add: route_params_explained_def once_simps)

lemma once_query_explained: "responds_once (trace (query_explained lc products) req)"
  by (simp add: query_explained_def once_simps)

lemma once_not_found_use: "responds_once (trace not_found_use req)"
  by (simp add: not_found_use_def once_simps)

lemma once_logger: "responds_once (trace logger req)"
  by (simp add: logger_def once_simps)

lemma once_authorize: "responds_once (trace authorize req)"
  by (simp add: authorize_def once_simps)

lemma once_logger_explained: "responds_once (trace logger_explained req)"
  by (simp add: logger_explained_def once_simps)

lemma once_authorize_explained: "responds_once (trace authorize_explained req)"
  by (simp add: authorize_explained_def once_simps)

lemma once_mw_home: "responds_once (trace mw_home req)"
  by (simp add: mw_home_def once_simps)

lemma once_mw_about: "responds_once (trace mw_about req)"
  by (simp add: mw_about_def once_simps)

lemma once_mw_products: "responds_once (trace mw_products req)"
  by (simp add: mw_products_def once_simps)

lemma once_mw_customers: "responds_once (trace mw_customers req)"
  by (simp add: mw_customers_def once_simps)

lemma once_error_handler: "responds_once (trace (error_handler err) req)"
  by (simp add: error_handler_def once_simps)

lemma once_mw_not_found: "responds_once (trace mw_not_found req)"
  by (simp add: mw_not_found_def once_simps)

lemma once_getPeople: "responds_once (trace (getPeople people) req)"
  by (simp add: getPeople_def once_simps)

lemma once_createPerson: "responds_once (trace (createPerson people) req)"
  by (simp add: createPerson_def once_simps)

lemma once_createPersonPostman: "responds_once (trace (createPersonPostman people) req)"
  by (simp add: createPersonPostman_def once_simps)

lemma once_updatePerson: "responds_once (trace (updatePerson people) req)"
  by (simp add: updatePerson_def once_simps)

lemma once_deletePerson: "responds_once (trace (deletePerson people) req)"
  by (simp add: deletePerson_def once_simps)

lemma once_login: "responds_once (trace login req)"
  by (simp add: login_def once_simps)

lemmas once_handlers =
  once_http_basics once_http_app once_express_home once_express_about once_resource_not_found
  once_send_index once_json_home once_products_home once_products_list once_getProduct_basic
  once_route_params_basic once_query_basic once_about_page once_getProduct_explained once_route_params_explained
  once_query_explained once_not_found_use once_logger once_authorize once_logger_explained
  once_authorize_explained once_mw_home once_mw_about once_mw_products once_mw_customers
  once_error_handler once_mw_not_found once_getPeople once_createPerson once_createPersonPostman
  once_updatePerson once_deletePerson once_login
lemma once_chain:
  assumes "trace h req = [Respond n b]"
    and "trace h (req\<lparr>req_user := JObj [(''name'', to_jsval (req_query req ''user'')), (''id'', JNum (Fin 3))]\<rparr>) = [Respond n b]"
  shows "responds_once (chain [logger, authorize, h] req) \<and>
         length (filter completes (chain [logger, authorize, h] req)) = 1 \<and>
         responds_once (chain [logger_explained, authorize_explained, h] req) \<and>
         length (filter completes (chain [logger_explained, authorize_explained, h] req)) = 1"
  using assms
  by (simp add: logger_def authorize_def logger_explained_def authorize_explained_def once_simps)

text \<open>
  C4: for every request, every handler and middleware function of the repository
  writes to the response only while it is not complete, and completes it at most once.
  The same holds for the whole stack \<open>logger\<close>, \<open>authorize\<close>, route handler of the two
  middleware servers, which completes the response exactly once.
\<close>

theorem one_response:
  "(\<forall>h \<in> set (all_handlers lc products people err). responds_once (trace h req)) \<and>
   (\<forall>h \<in> set mw_routes.
      responds_once (chain [logger, authorize, h] req) \<and>
      length (filter completes (chain [logger, authorize, h] req)) = 1) \<and>
   (\<forall>h \<in> set mw_routes_explained.
      responds_once (chain [logger_explained, authorize_explained, h] req) \<and>
      length (filter completes (chain [logger_explained, authorize_explained, h] req)) = 1)"
proof -
  have a: "\<forall>h \<in> set (all_handlers lc products people err). responds_once (trace h req)"
    unfolding all_handlers_def by (simp only: list.set ball_simps once_handlers simp_thms)
  have r: "trace h r = [Respond 200 (Html ''Home Page'')] \<or>
           trace h r = [Respond 200 (Html ''About Page'')] \<or>
           trace h r = [Respond 200 (Html ''Products Page'')] \<or>
           trace h r = [Respond 200 (Html ''Customers Page'')] \<or>
           trace h r = [Respond 404 (Html ''404 - Resource not found'')]"
    if "h \<in> set mw_routes_explained" for h r
    using that
    by (auto simp: mw_routes_explained_def mw_home_def mw_about_def mw_products_def
        mw_customers_def mw_not_found_def trace_def)
  have c: "\<forall>h \<in> set mw_routes_explained.
      responds_once (chain [logger, authorize, h] req) \<and>
      length (filter completes (chain [logger, authorize, h] req)) = 1 \<and>
      responds_once (chain [logger_explained, authorize_explained, h] req) \<and>
      length (filter completes (chain [logger_explained, authorize_explained, h] req)) = 1"
  proof
    fix h assume h: "h \<in> set mw_routes_explained"
    have const: "trace h r = trace h r'" for r r'
      using h
      by (auto simp: mw_routes_explained_def mw_home_def mw_about_def mw_products_def
        mw_customers_def mw_not_found_def trace_def)
    from r [OF h, of req] obtain n b where t: "trace h req = [Respond n b]"
      by blast
    show "responds_once (chain [logger, authorize, h] req) \<and>
      length (filter completes (chain [logger, authorize, h] req)) = 1 \<and>
      responds_once (chain [logger_explained, authorize_explained, h] req) \<and>
      length (filter completes (chain [logger_explained, authorize_explained, h] req)) = 1"
    proof (rule once_chain [OF t])
      show "trace h (req\<lparr>req_user := JObj [(''name'', to_jsval (req_query req ''user'')),
              (''id'', JNum (Fin 3))]\<rparr>) = [Respond n b]"
        using const [of "req\<lparr>req_user := JObj [(''name'', to_jsval (req_query req ''user'')),
              (''id'', JNum (Fin 3))]\<rparr>" req] t
        by simp
    qed
  qed
  have sub: "set mw_routes \<subseteq> set mw_routes_explained"
    by (simp add: mw_routes_def mw_routes_explained_def)
  from a c sub show ?thesis by blast
qed
theorem one_response_witness:
  "trace (query_basic example_products) (query_request (Some (QStr ''zzz'')) None) =
     [Respond 200 (Json (JObj [(''searchSuccess'', JBool True), (''data'', JArr [])]))] \<and>
   responds_once (trace (query_basic example_products) (query_request (Some (QStr ''zzz'')) None)) \<and>
   chain [logger, authorize, mw_home] (user_request ''/'' (Some (QStr ''john''))) =
     [SetUser (JObj [(''name'', JStr ''john''), (''id'', JNum (Fin 3))]),
      Respond 200 (Html ''Home Page'')] \<and>
   chain [logger, authorize, mw_home] (user_request ''/'' None) =
     [Respond 401 (Html ''You are not authorized to access this resource'')] \<and>
   responds_once (chain [logger, authorize, mw_home] (user_request ''/'' (Some (QStr ''john''))))"
proof -
  let ?q = "query_request (Some (QStr ''zzz'')) None"
  let ?u = "user_request ''/'' (Some (QStr ''john''))"
  have m1: "query_basic example_products \<in> set (all_handlers toLowerCase example_products example_people example_err)"
    by (simp add: all_handlers_def)
  have m2: "mw_home \<in> set mw_routes"
    by (simp add: mw_routes_def)
  have t1: "trace (query_basic example_products) ?q =
     [Respond 200 (Json (JObj [(''searchSuccess'', JBool True), (''data'', JArr [])]))]"
    by (simp add: query_basic_def query_request_def trace_def searched_basic_def
        example_products_def)
  have t2: "chain [logger, authorize, mw_home] ?u =
     [SetUser (JObj [(''name'', JStr ''john''), (''id'', JNum (Fin 3))]),
      Respond 200 (Html ''Home Page'')]"
    by (simp add: logger_def authorize_def mw_home_def user_request_def trace_def)
  have t3: "chain [logger, authorize, mw_home] (user_request ''/'' None) =
     [Respond 401 (Html ''You are not authorized to access this resource'')]"
    by (simp add: logger_def authorize_def mw_home_def user_request_def trace_def)
  note all = one_response [where lc = toLowerCase and products = example_products
      and people = example_people and err = example_err]
  have o1: "responds_once (trace (query_basic example_products) ?q)"
    using all [where req = ?q] m1 by blast
  have o2: "responds_once (chain [logger, authorize, mw_home] ?u)"
    using all [where req = ?u] m2 by blast
  from t1 o1 t2 t3 o2 show ?thesis by blast
qed

end
